theory Spec2Isabelle
  imports Main
begin

section \<open>Python values, exceptions and strings\<close>

text \<open>
  The embedding follows \<^verbatim>\<open>app/routers/iri_router.py\<close>. Python strings are
  \<^typ>\<open>string\<close> (code points below 256). A raised exception is the \<open>Inl\<close> of a sum.
  The type \<open>pyexception\<close> holds instances of Python's class \<^verbatim>\<open>Exception\<close>, which is
  what \<^verbatim>\<open>except Exception\<close> catches; interpreter signals that derive from
  \<^verbatim>\<open>BaseException\<close> only (keyboard interrupt, task cancellation) are not values of it.
  Log lines are not part of the model.
\<close>

datatype pyexception =
    ImportError string
  | AttributeError string
  | IndexError string
  | TypeError string
  | Exception string
  | HTTPException nat string

datatype pyval = PyNone | PyStr string | PyInt int | PyBool bool

text \<open>Python truth value of an object, as \<^verbatim>\<open>if not user_id\<close> tests it.\<close>

fun truthy :: "pyval \<Rightarrow> bool" where
  "truthy PyNone = False"
| "truthy (PyStr s) = (s \<noteq> [])"
| "truthy (PyInt i) = (i \<noteq> 0)"
| "truthy (PyBool b) = b"

text \<open>\<^verbatim>\<open>str.isspace\<close> on one code point below 256.\<close>

definition isspace :: "char \<Rightarrow> bool" where
  "isspace c = (of_char c \<in> set [9, 10, 11, 12, 13, 28, 29, 30, 31, 32, 133, 160 :: nat])"

text \<open>\<^verbatim>\<open>s.replace(c, "")\<close> for a one-character \<open>c\<close>: every occurrence is removed.\<close>

definition str_remove :: "char \<Rightarrow> string \<Rightarrow> string" where
  "str_remove c s = filter (\<lambda>x. x \<noteq> c) s"

text \<open>\<^verbatim>\<open>s.strip()\<close>: whitespace is dropped at both ends.\<close>

definition str_strip :: "string \<Rightarrow> string" where
  "str_strip s = rev (dropWhile isspace (rev (dropWhile isspace s)))"

text \<open>
  \<^verbatim>\<open>s.rsplit(c, 1)\<close>: at most one split, at the last occurrence of \<open>c\<close>; a string
  without \<open>c\<close> comes back as the only element.
\<close>

definition str_rsplit1 :: "char \<Rightarrow> string \<Rightarrow> string list" where
  "str_rsplit1 c s =
     (if c \<in> set s
      then [rev (tl (dropWhile (\<lambda>x. x \<noteq> c) (rev s))), rev (takeWhile (\<lambda>x. x \<noteq> c) (rev s))]
      else [s])"

text \<open>\<^verbatim>\<open>xs[i]\<close> for \<open>i \<ge> 0\<close>: an index out of range raises \<^verbatim>\<open>IndexError\<close>.\<close>

definition list_index :: "'a list \<Rightarrow> nat \<Rightarrow> pyexception + 'a" where
  "list_index xs i = (if i < length xs then Inr (xs ! i) else Inl (IndexError ''list index out of range''))"

text \<open>A name between single quotes, as the interpreter's messages write it.\<close>

definition sq :: "string \<Rightarrow> string" where
  "sq s = CHR 0x27 # s @ [CHR 0x27]"

section \<open>Adapters, classes, modules and the environment\<close>

text \<open>
  An adapter instance is what \<^verbatim>\<open>current_user\<close> uses of it: the name of its class
  and the attribute \<^verbatim>\<open>get_current_user\<close> (absent on an object that does not define
  it), taking the credential and the client address (\<^verbatim>\<open>str|None\<close>) and returning a
  value or raising.
\<close>

record adapter_instance =
  inst_class :: string
  get_current_user :: "(string \<Rightarrow> string option \<Rightarrow> pyexception + pyval) option"

text \<open>
  A class: its identity, the identities of its proper ancestors, and the result of calling
  it with no arguments. A module attribute is a class or some other object.
\<close>

record pyclass =
  cls_id :: string
  cls_bases :: "string list"
  cls_new :: "pyexception + adapter_instance"

datatype pyobj = ClassObj pyclass | NonClassObj

record pymodule =
  mod_name :: string
  mod_attrs :: "string \<rightharpoonup> pyobj"

text \<open>\<^verbatim>\<open>importlib.import_module\<close>, \<^verbatim>\<open>os.environ\<close>: taken as given.\<close>

type_synonym importer = "string \<Rightarrow> pyexception + pymodule"

type_synonym environ = "string \<rightharpoonup> string"

definition getattr :: "pymodule \<Rightarrow> string \<Rightarrow> pyexception + pyobj" where
  "getattr m name =
     (case mod_attrs m name of
        None \<Rightarrow> Inl (AttributeError (''module '' @ sq (mod_name m) @ '' has no attribute '' @ sq name))
      | Some obj \<Rightarrow> Inr obj)"

text \<open>\<^verbatim>\<open>issubclass(a, b)\<close>: both arguments must be classes; a class is a subclass of itself.\<close>

fun issubclass :: "pyobj \<Rightarrow> pyobj \<Rightarrow> pyexception + bool" where
  "issubclass NonClassObj b = Inl (TypeError ''issubclass() arg 1 must be a class'')"
| "issubclass (ClassObj c) NonClassObj =
     Inl (TypeError ''issubclass() arg 2 must be a class, a tuple of classes, or a union'')"
| "issubclass (ClassObj c) (ClassObj k) = Inr (cls_id k \<in> set (cls_id c # cls_bases c))"

text \<open>Calling an object with no arguments; only classes are callable here.\<close>

fun call_noargs :: "pyobj \<Rightarrow> pyexception + adapter_instance" where
  "call_noargs (ClassObj c) = cls_new c"
| "call_noargs NonClassObj = Inl (TypeError ''object is not callable'')"

section \<open>The router\<close>

text \<open>
  Of \<^verbatim>\<open>APIRouter\<close> the source reads \<^verbatim>\<open>prefix\<close> and writes
  \<^verbatim>\<open>include_in_schema\<close>; \<^verbatim>\<open>adapter\<close> is the attribute that
  \<^verbatim>\<open>create_adapter\<close> adds, \<open>None\<close> while it has never been assigned.
\<close>

record router =
  prefix :: string
  include_in_schema :: bool
  adapter :: "adapter_instance option"

definition router_name :: "string \<Rightarrow> string" where
  "router_name pfx = str_strip (str_remove CHR ''/'' pfx)"

definition env_var_name :: "string \<Rightarrow> string" where
  "env_var_name pfx = ''IRI_API_ADAPTER_'' @ router_name pfx"

text \<open>
  \<^verbatim>\<open>IriRouter.create_adapter\<close>. The method mutates \<open>self\<close>, so the model returns the
  router as the call leaves it, together with the exception raised, if any.
\<close>

definition create_adapter ::
    "environ \<Rightarrow> importer \<Rightarrow> router \<Rightarrow> pyobj \<Rightarrow> (pyexception + unit) \<times> router" where
  "create_adapter env imp self router_adapter =
     (let env_var = env_var_name (prefix self) in
      if env env_var = None \<and>
         env ''IRI_SHOW_MISSING_ROUTES'' \<notin> set [Some ''true'', Some ''1'', Some ''on'', Some ''yes'']
      then (Inr (), self\<lparr>include_in_schema := False\<rparr>)
      else
        let adapter_name = (case env env_var of Some v \<Rightarrow> v | None \<Rightarrow> ''app.demo_adapter.DemoAdapter'');
            parts = str_rsplit1 CHR ''.'' adapter_name
        in case list_index parts 0 of Inl e \<Rightarrow> (Inl e, self) | Inr modname \<Rightarrow>
           case imp modname of Inl e \<Rightarrow> (Inl e, self) | Inr module \<Rightarrow>
           case list_index parts 1 of Inl e \<Rightarrow> (Inl e, self) | Inr symname \<Rightarrow>
           case getattr module symname of Inl e \<Rightarrow> (Inl e, self) | Inr AdapterClass \<Rightarrow>
           case issubclass AdapterClass router_adapter of Inl e \<Rightarrow> (Inl e, self) | Inr sub \<Rightarrow>
           if \<not> sub then (Inl (Exception (adapter_name @ '' should implement FacilityAdapter'')), self)
           else case call_noargs AdapterClass of Inl e \<Rightarrow> (Inl e, self)
                | Inr a \<Rightarrow> (Inr (), self\<lparr>adapter := Some a\<rparr>))"

text \<open>
  \<^verbatim>\<open>IriRouter.__init__\<close>: the base class sets \<open>prefix\<close> and \<open>include_in_schema\<close>
  from the keyword arguments, then \<^verbatim>\<open>create_adapter\<close> runs. A constructor that
  raises yields no router.
\<close>

definition IriRouter_init ::
    "environ \<Rightarrow> importer \<Rightarrow> pyobj \<Rightarrow> string \<Rightarrow> bool \<Rightarrow> pyexception + router" where
  "IriRouter_init env imp router_adapter pfx vis =
     (case create_adapter env imp \<lparr>prefix = pfx, include_in_schema = vis, adapter = None\<rparr> router_adapter of
        (Inl e, self) \<Rightarrow> Inl e
      | (Inr u, self) \<Rightarrow> Inr self)"

section \<open>Requests\<close>

text \<open>
  Of the request the source reads \<^verbatim>\<open>headers.get\<close> (a lookup giving \<open>None\<close> for an
  absent header) and \<^verbatim>\<open>client.host\<close>, and writes attributes of \<^verbatim>\<open>state\<close>.
  \<^verbatim>\<open>request.client\<close> is the address of the transport peer, or \<open>None\<close> when the server
  passed none; reading \<^verbatim>\<open>host\<close> of \<open>None\<close> raises \<^verbatim>\<open>AttributeError\<close>.
\<close>

record address =
  host :: string
  port :: nat

record request =
  headers :: "string \<rightharpoonup> string"
  client :: "address option"
  state :: "string \<rightharpoonup> pyval"

text \<open>\<^verbatim>\<open>not ip_addr\<close> holds for \<open>None\<close> and for the empty string.\<close>

definition str_falsy :: "string option \<Rightarrow> bool" where
  "str_falsy v = (case v of None \<Rightarrow> True | Some s \<Rightarrow> s = [])"

definition get_real_ip :: "request \<Rightarrow> pyexception + string option" where
  "get_real_ip req =
     (let ip_addr = headers req ''HTTP_X_REAL_IP'' in
      if str_falsy ip_addr then
        (let ip_addr = headers req ''x-real-ip'' in
         if str_falsy ip_addr then
           (case client req of
              None \<Rightarrow> Inl (AttributeError (sq ''NoneType'' @ '' object has no attribute '' @ sq ''host''))
            | Some c \<Rightarrow> Inr (Some (host c)))
         else Inr ip_addr)
      else Inr ip_addr)"

text \<open>
  The body of the \<^verbatim>\<open>try\<close> in \<^verbatim>\<open>current_user\<close>: reading \<^verbatim>\<open>self.adapter\<close> or its
  method raises \<^verbatim>\<open>AttributeError\<close> when the attribute is missing; then the arguments are
  evaluated, where \<^verbatim>\<open>get_real_ip\<close> may raise; then the method is called.
\<close>

definition try_get_current_user :: "router \<Rightarrow> request \<Rightarrow> string \<Rightarrow> pyexception + pyval" where
  "try_get_current_user self req api_key =
     (case adapter self of
        None \<Rightarrow> Inl (AttributeError (sq ''IriRouter'' @ '' object has no attribute '' @ sq ''adapter''))
      | Some a \<Rightarrow>
          (case get_current_user a of
             None \<Rightarrow> Inl (AttributeError
                       (sq (inst_class a) @ '' object has no attribute '' @ sq ''get_current_user''))
           | Some f \<Rightarrow>
               (case get_real_ip req of
                  Inl e \<Rightarrow> Inl e
                | Inr ip \<Rightarrow> f api_key ip)))"

text \<open>
  \<^verbatim>\<open>IriRouter.current_user\<close>: the outcome (\<open>Inl\<close> the exception raised) and the
  request as the call leaves it.
\<close>

definition current_user :: "router \<Rightarrow> request \<Rightarrow> string \<Rightarrow> (pyexception + unit) \<times> request" where
  "current_user self req api_key =
     (let user_id = (case try_get_current_user self req api_key of
                       Inl exc \<Rightarrow> PyNone
                     | Inr v \<Rightarrow> v)
      in if \<not> truthy user_id
         then (Inl (HTTPException 403 ''Unauthorized access''), req)
         else (Inr (),
               req\<lparr>state := (state req)(''current_user_id'' \<mapsto> user_id, ''api_key'' \<mapsto> PyStr api_key)\<rparr>))"

section \<open>A sample deployment\<close>

text \<open>
  One concrete adapter, contract, module table and request, on which the theorems below
  are instantiated.
\<close>

definition example_get_current_user :: "string \<Rightarrow> string option \<Rightarrow> pyexception + pyval" where
  "example_get_current_user api_key ip =
     (if api_key = ''good-token'' then Inr (PyStr ''user1'')
      else if api_key = ''broken-token'' then Inl (Exception ''cannot decode'')
      else Inr (PyStr []))"

definition example_adapter :: adapter_instance where
  "example_adapter = \<lparr>inst_class = ''DemoAdapter'', get_current_user = Some example_get_current_user\<rparr>"

definition example_contract :: pyclass where
  "example_contract =
     \<lparr>cls_id = ''FacilityAdapter'', cls_bases = [''AuthenticatedAdapter'', ''ABC''],
      cls_new = Inl (TypeError ''cannot instantiate abstract class'')\<rparr>"

definition example_AuthenticatedAdapter :: pyclass where
  "example_AuthenticatedAdapter =
     \<lparr>cls_id = ''AuthenticatedAdapter'', cls_bases = [''ABC''],
      cls_new = Inl (TypeError ''cannot instantiate abstract class'')\<rparr>"

definition example_DemoAdapter :: pyclass where
  "example_DemoAdapter =
     \<lparr>cls_id = ''DemoAdapter'', cls_bases = [''FacilityAdapter'', ''AuthenticatedAdapter'', ''ABC''],
      cls_new = Inr example_adapter\<rparr>"

definition example_Plain :: pyclass where
  "example_Plain = \<lparr>cls_id = ''Plain'', cls_bases = [],
                    cls_new = Inr \<lparr>inst_class = ''Plain'', get_current_user = None\<rparr>\<rparr>"

definition example_module :: pymodule where
  "example_module =
     \<lparr>mod_name = ''app.demo_adapter'',
      mod_attrs = [''DemoAdapter'' \<mapsto> ClassObj example_DemoAdapter, ''Plain'' \<mapsto> ClassObj example_Plain]\<rparr>"

definition example_import :: importer where
  "example_import name =
     (if name = ''app.demo_adapter'' then Inr example_module
      else Inl (ImportError (''No module named '' @ sq name)))"

definition example_request :: request where
  "example_request =
     \<lparr>headers = [''x-real-ip'' \<mapsto> ''9.9.9.9''], client = Some \<lparr>host = ''10.0.0.7'', port = 51234\<rparr>,
      state = Map.empty\<rparr>"

definition example_request_no_peer :: request where
  "example_request_no_peer = \<lparr>headers = Map.empty, client = None, state = Map.empty\<rparr>"

definition example_router :: router where
  "example_router = \<lparr>prefix = ''/status'', include_in_schema = True, adapter = Some example_adapter\<rparr>"

section \<open>Auxiliary facts\<close>

lemma rsplit1_last: "c \<notin> set s \<Longrightarrow> str_rsplit1 c (m @ c # s) = [m, s]"
proof -
  assume h: "c \<notin> set s"
  then have a: "\<And>x. x \<in> set (rev s) \<Longrightarrow> x \<noteq> c" by auto
  have t: "takeWhile (\<lambda>x. x \<noteq> c) (rev s @ c # rev m) = rev s"
    using a by (simp add: takeWhile_tail)
  have d: "dropWhile (\<lambda>x. x \<noteq> c) (rev s @ c # rev m) = c # rev m"
    using dropWhile_append2[of "rev s" "\<lambda>x. x \<noteq> c" "c # rev m"] a by simp
  show ?thesis by (simp add: str_rsplit1_def t d)
qed

lemma rsplit1_default:
  "str_rsplit1 CHR ''.'' ''app.demo_adapter.DemoAdapter'' = [''app.demo_adapter'', ''DemoAdapter'']"
  by (simp add: str_rsplit1_def)

lemma list_index_simps:
  "list_index (x # xs) 0 = Inr x"
  "list_index [x, y] 1 = Inr y"
  "list_index [x, y] (Suc 0) = Inr y"
  "list_index [x] 1 = Inl (IndexError ''list index out of range'')"
  by (simp_all add: list_index_def)

lemma env_var_status: "env_var_name ''/status'' = ''IRI_API_ADAPTER_status''"
  by (simp add: env_var_name_def router_name_def str_strip_def str_remove_def isspace_def)

lemma create_adapter_hide:
  assumes "env (env_var_name (prefix self)) = None"
    and "env ''IRI_SHOW_MISSING_ROUTES'' \<notin> {Some ''true'', Some ''1'', Some ''on'', Some ''yes''}"
  shows "create_adapter env imp self k = (Inr (), self\<lparr>include_in_schema := False\<rparr>)"
  using assms by (simp add: create_adapter_def)

lemma create_adapter_load:
  assumes "env (env_var_name (prefix self)) = Some loc \<or>
           (env (env_var_name (prefix self)) = None \<and> loc = ''app.demo_adapter.DemoAdapter'' \<and>
            env ''IRI_SHOW_MISSING_ROUTES'' \<in> {Some ''true'', Some ''1'', Some ''on'', Some ''yes''})"
    and "str_rsplit1 CHR ''.'' loc = [m, s]"
  shows "create_adapter env imp self k =
     (case imp m of Inl e \<Rightarrow> (Inl e, self) | Inr module \<Rightarrow>
      case getattr module s of Inl e \<Rightarrow> (Inl e, self) | Inr AdapterClass \<Rightarrow>
      case issubclass AdapterClass k of Inl e \<Rightarrow> (Inl e, self) | Inr sub \<Rightarrow>
      if \<not> sub then (Inl (Exception (loc @ '' should implement FacilityAdapter'')), self)
      else case call_noargs AdapterClass of Inl e \<Rightarrow> (Inl e, self)
           | Inr a \<Rightarrow> (Inr (), self\<lparr>adapter := Some a\<rparr>))"
proof -
  have n: "(case env (env_var_name (prefix self)) of Some v \<Rightarrow> v
           | None \<Rightarrow> ''app.demo_adapter.DemoAdapter'') = loc"
    using assms(1) by auto
  have c: "\<not> (env (env_var_name (prefix self)) = None \<and>
     env ''IRI_SHOW_MISSING_ROUTES'' \<notin> set [Some ''true'', Some ''1'', Some ''on'', Some ''yes''])"
    using assms(1) by auto
  show ?thesis
    unfolding create_adapter_def Let_def n if_not_P[OF c] assms(2)
    by (simp add: list_index_simps cong: sum.case_cong)
qed

lemma try_bound_adapter:
  "adapter self = Some a \<Longrightarrow> get_current_user a = Some f \<Longrightarrow>
   try_get_current_user self req api_key =
     (case get_real_ip req of Inl e \<Rightarrow> Inl e | Inr ip \<Rightarrow> f api_key ip)"
  by (simp add: try_get_current_user_def)

lemma current_user_denied:
  assumes "(\<exists>e. try_get_current_user self req api_key = Inl e) \<or>
           (\<exists>v. try_get_current_user self req api_key = Inr v \<and> \<not> truthy v)"
  shows "current_user self req api_key = (Inl (HTTPException 403 ''Unauthorized access''), req)"
  using assms by (auto simp add: current_user_def)

lemma init_fresh:
  "IriRouter_init env imp k pfx vis =
     (case create_adapter env imp \<lparr>prefix = pfx, include_in_schema = vis, adapter = None\<rparr> k of
        (Inl e, self) \<Rightarrow> Inl e | (Inr u, self) \<Rightarrow> Inr self)"
  by (simp add: IriRouter_init_def)

lemma example_env_keys:
  "env_var_name ''/status'' \<noteq> ''IRI_SHOW_MISSING_ROUTES''"
  "env_var_name ''/status'' \<noteq> ''IRI_API_SHOW_MISSING_ROUTES''"
  "env_var_name ''/status'' \<noteq> ''IRI_API_ADAPTER_STATUS''"
  by (simp_all add: env_var_status)

lemma create_adapter_shown_not_hidden:
  assumes "env (env_var_name (prefix self)) = None"
    and "env ''IRI_SHOW_MISSING_ROUTES'' \<in> {Some ''true'', Some ''1'', Some ''on'', Some ''yes''}"
    and "adapter self = None"
  shows "create_adapter env imp self k \<noteq> (Inr (), self\<lparr>include_in_schema := False\<rparr>)"
proof -
  have l: "create_adapter env imp self k =
     (case imp ''app.demo_adapter'' of Inl e \<Rightarrow> (Inl e, self) | Inr module \<Rightarrow>
      case getattr module ''DemoAdapter'' of Inl e \<Rightarrow> (Inl e, self) | Inr AdapterClass \<Rightarrow>
      case issubclass AdapterClass k of Inl e \<Rightarrow> (Inl e, self) | Inr sub \<Rightarrow>
      if \<not> sub then (Inl (Exception (''app.demo_adapter.DemoAdapter'' @ '' should implement FacilityAdapter'')), self)
      else case call_noargs AdapterClass of Inl e \<Rightarrow> (Inl e, self)
           | Inr a \<Rightarrow> (Inr (), self\<lparr>adapter := Some a\<rparr>))"
    by (rule create_adapter_load[OF _ rsplit1_default]) (use assms in simp)
  have ne: "\<And>a. self\<lparr>adapter := Some a\<rparr> \<noteq> self\<lparr>include_in_schema := False\<rparr>"
  proof
    fix a assume "self\<lparr>adapter := Some a\<rparr> = self\<lparr>include_in_schema := False\<rparr>"
    then have "adapter (self\<lparr>adapter := Some a\<rparr>) = adapter (self\<lparr>include_in_schema := False\<rparr>)" by simp
    with assms(3) show False by simp
  qed
  show ?thesis unfolding l using ne by (simp split: sum.splits)
qed

lemma create_adapter_env_cong:
  assumes "env1 (env_var_name (prefix self)) = env2 (env_var_name (prefix self))"
    and "env1 ''IRI_SHOW_MISSING_ROUTES'' = env2 ''IRI_SHOW_MISSING_ROUTES''"
  shows "create_adapter env1 imp self k = create_adapter env2 imp self k"
  unfolding create_adapter_def Let_def assms ..

lemma strip_no_space: "\<forall>c\<in>set s. \<not> isspace c \<Longrightarrow> str_strip s = s"
proof -
  assume a: "\<forall>c\<in>set s. \<not> isspace c"
  have d: "\<And>xs. \<forall>c\<in>set xs. \<not> isspace c \<Longrightarrow> dropWhile isspace xs = xs"
    by (case_tac xs) simp_all
  have "dropWhile isspace s = s" using a by (rule d)
  moreover have "dropWhile isspace (rev s) = rev s" using a by (intro d) simp
  ultimately show ?thesis by (simp add: str_strip_def)
qed

lemma strip_subset: "set (str_strip s) \<subseteq> set s"
proof -
  have "set (str_strip s) = set (dropWhile isspace (rev (dropWhile isspace s)))"
    by (simp add: str_strip_def)
  also have "\<dots> \<subseteq> set (rev (dropWhile isspace s))" by (rule set_dropWhileD[THEN subsetI])
  also have "\<dots> \<subseteq> set s" using set_dropWhileD[of _ isspace s] by auto
  finally show ?thesis .
qed

section \<open>Router construction\<close>

text \<open>
  C3: when the environment has no entry for the group's key and the value of
  the show-missing flag is none of "true", "1", "on", "yes", construction returns a router
  with \<^verbatim>\<open>include_in_schema\<close> false and no adapter, and raises nothing.
\<close>

theorem unconfigured_group_hidden:
  assumes "env (env_var_name pfx) = None"
    and "env ''IRI_SHOW_MISSING_ROUTES'' \<notin> {Some ''true'', Some ''1'', Some ''on'', Some ''yes''}"
  shows "IriRouter_init env imp router_adapter pfx vis =
           Inr \<lparr>prefix = pfx, include_in_schema = False, adapter = None\<rparr>"
  using create_adapter_hide[of env "\<lparr>prefix = pfx, include_in_schema = vis, adapter = None\<rparr>" imp router_adapter] assms
  by (simp add: IriRouter_init_def)

theorem unconfigured_group_hidden_witness:
  "IriRouter_init [''IRI_SHOW_MISSING_ROUTES'' \<mapsto> ''True''] example_import (ClassObj example_contract) ''/status'' True =
     Inr \<lparr>prefix = ''/status'', include_in_schema = False, adapter = None\<rparr>"
  by (rule unconfigured_group_hidden) (simp_all add: env_var_status)

text \<open>
  C4: the show-missing decision reads the environment variable
  \<^verbatim>\<open>IRI_SHOW_MISSING_ROUTES\<close>: a group without an entry of its own is constructed hidden
  exactly when the value of that variable is absent or is not one of the strings "true",
  "1", "on", "yes", compared as they are written. The variable
  \<^verbatim>\<open>IRI_API_SHOW_MISSING_ROUTES\<close> is not read: setting it to "true" leaves the group
  hidden.
\<close>

theorem show_missing_flag:
  assumes "env (env_var_name pfx) = None"
  shows "(IriRouter_init env imp router_adapter pfx vis =
            Inr \<lparr>prefix = pfx, include_in_schema = False, adapter = None\<rparr>)
         = (env ''IRI_SHOW_MISSING_ROUTES'' \<notin> {Some ''true'', Some ''1'', Some ''on'', Some ''yes''})"
proof (cases "env ''IRI_SHOW_MISSING_ROUTES'' \<in> {Some ''true'', Some ''1'', Some ''on'', Some ''yes''}")
  case False
  then show ?thesis
    using create_adapter_hide[of env "\<lparr>prefix = pfx, include_in_schema = vis, adapter = None\<rparr>" imp router_adapter] assms
    by (simp add: IriRouter_init_def)
next
  case True
  have "create_adapter env imp \<lparr>prefix = pfx, include_in_schema = vis, adapter = None\<rparr> router_adapter
          \<noteq> (Inr (), \<lparr>prefix = pfx, include_in_schema = vis, adapter = None\<rparr>\<lparr>include_in_schema := False\<rparr>)"
    by (rule create_adapter_shown_not_hidden) (use assms True in simp_all)
  then have "IriRouter_init env imp router_adapter pfx vis \<noteq>
            Inr \<lparr>prefix = pfx, include_in_schema = False, adapter = None\<rparr>"
    by (auto simp add: IriRouter_init_def split: prod.splits sum.splits)
  with True show ?thesis by simp
qed

theorem show_missing_flag_witness:
  "(IriRouter_init [''IRI_SHOW_MISSING_ROUTES'' \<mapsto> ''TRUE''] example_import (ClassObj example_contract) ''/status'' True =
      Inr \<lparr>prefix = ''/status'', include_in_schema = False, adapter = None\<rparr>)
   \<and> (IriRouter_init [''IRI_SHOW_MISSING_ROUTES'' \<mapsto> ''yes''] example_import (ClassObj example_contract) ''/status'' True \<noteq>
      Inr \<lparr>prefix = ''/status'', include_in_schema = False, adapter = None\<rparr>)"
  using show_missing_flag[of "[''IRI_SHOW_MISSING_ROUTES'' \<mapsto> ''TRUE'']" "''/status''" example_import "ClassObj example_contract" True]
        show_missing_flag[of "[''IRI_SHOW_MISSING_ROUTES'' \<mapsto> ''yes'']" "''/status''" example_import "ClassObj example_contract" True]
  by (simp add: example_env_keys)

theorem show_missing_key_counterexample:
  "IriRouter_init [''IRI_API_SHOW_MISSING_ROUTES'' \<mapsto> ''true''] example_import (ClassObj example_contract) ''/status'' True =
      Inr \<lparr>prefix = ''/status'', include_in_schema = False, adapter = None\<rparr>"
  by (simp add: IriRouter_init_def create_adapter_def example_env_keys)

text \<open>
  C5: the per-group key is \<^verbatim>\<open>IRI_API_ADAPTER_\<close> followed by the
  route prefix with every "/" removed and whitespace stripped at both ends; the letters keep
  their case. The name has no "/" and only characters of the prefix, it is the prefix without
  its "/" when the prefix has no whitespace, and of the environment construction reads this
  key and \<^verbatim>\<open>IRI_SHOW_MISSING_ROUTES\<close> only. The upper-cased key is not consulted: for
  the prefix "/status", an entry \<^verbatim>\<open>IRI_API_ADAPTER_STATUS\<close> leaves the group hidden.
\<close>

theorem group_key_from_prefix:
  "env_var_name (prefix self) = ''IRI_API_ADAPTER_'' @ str_strip (filter (\<lambda>c. c \<noteq> CHR ''/'') (prefix self))
   \<and> CHR ''/'' \<notin> set (router_name (prefix self))
   \<and> set (router_name (prefix self)) \<subseteq> set (prefix self)
   \<and> ((\<forall>c\<in>set (prefix self). \<not> isspace c) \<longrightarrow>
        router_name (prefix self) = filter (\<lambda>c. c \<noteq> CHR ''/'') (prefix self))
   \<and> (env1 (env_var_name (prefix self)) = env2 (env_var_name (prefix self)) \<and>
      env1 ''IRI_SHOW_MISSING_ROUTES'' = env2 ''IRI_SHOW_MISSING_ROUTES'' \<longrightarrow>
        create_adapter env1 imp self k = create_adapter env2 imp self k)"
proof (intro conjI impI)
  show "env_var_name (prefix self) = ''IRI_API_ADAPTER_'' @ str_strip (filter (\<lambda>c. c \<noteq> CHR ''/'') (prefix self))"
    by (simp add: env_var_name_def router_name_def str_remove_def)
  have sub: "set (router_name (prefix self)) \<subseteq> set (str_remove CHR ''/'' (prefix self))"
    unfolding router_name_def by (rule strip_subset)
  then show "CHR ''/'' \<notin> set (router_name (prefix self))"
    by (auto simp add: str_remove_def)
  from sub show "set (router_name (prefix self)) \<subseteq> set (prefix self)"
    by (auto simp add: str_remove_def)
  show "router_name (prefix self) = filter (\<lambda>c. c \<noteq> CHR ''/'') (prefix self)"
    if "\<forall>c\<in>set (prefix self). \<not> isspace c"
    unfolding router_name_def str_remove_def using that by (intro strip_no_space) simp
  show "create_adapter env1 imp self k = create_adapter env2 imp self k"
    if "env1 (env_var_name (prefix self)) = env2 (env_var_name (prefix self)) \<and>
      env1 ''IRI_SHOW_MISSING_ROUTES'' = env2 ''IRI_SHOW_MISSING_ROUTES''"
    using that by (intro create_adapter_env_cong) simp_all
qed

theorem group_key_from_prefix_witness:
  "router_name ''/status'' = ''status''
   \<and> env_var_name ''/ my group '' = ''IRI_API_ADAPTER_my group''
   \<and> create_adapter [''IRI_API_ADAPTER_status'' \<mapsto> ''app.demo_adapter.DemoAdapter''] example_import
        example_router (ClassObj example_contract)
     = create_adapter [''IRI_API_ADAPTER_status'' \<mapsto> ''app.demo_adapter.DemoAdapter'',
                       ''IRI_API_ADAPTER_STATUS'' \<mapsto> ''app.demo_adapter.Plain''] example_import
        example_router (ClassObj example_contract)"
  using group_key_from_prefix[of example_router
          "[''IRI_API_ADAPTER_status'' \<mapsto> ''app.demo_adapter.DemoAdapter'']"
          "[''IRI_API_ADAPTER_status'' \<mapsto> ''app.demo_adapter.DemoAdapter'',
            ''IRI_API_ADAPTER_STATUS'' \<mapsto> ''app.demo_adapter.Plain'']"
          example_import "ClassObj example_contract"]
        group_key_from_prefix[of "\<lparr>prefix = ''/ my group '', include_in_schema = True, adapter = None\<rparr>"
          Map.empty Map.empty example_import "ClassObj example_contract"]
  by (simp add: example_router_def env_var_status isspace_def str_strip_def)

theorem group_key_uppercase_counterexample:
  "env_var_name ''/status'' = ''IRI_API_ADAPTER_status''
   \<and> IriRouter_init [''IRI_API_ADAPTER_STATUS'' \<mapsto> ''app.demo_adapter.DemoAdapter''] example_import
        (ClassObj example_contract) ''/status'' True
      = Inr \<lparr>prefix = ''/status'', include_in_schema = False, adapter = None\<rparr>"
  by (simp add: IriRouter_init_def create_adapter_def env_var_status)

text \<open>
  C6: when the configured locator loads a class that is not a subclass of the
  required contract class, \<^verbatim>\<open>create_adapter\<close> raises \<^verbatim>\<open>Exception\<close> whose message is
  the locator followed by the fixed text " should implement FacilityAdapter", whichever
  contract class was required, and leaves the router as it was (no adapter is assigned);
  construction fails with that exception. The message names the locator; it does not
  depend on the contract: for the contracts \<^verbatim>\<open>AuthenticatedAdapter\<close> and
  \<^verbatim>\<open>FacilityAdapter\<close> it is the same text.
\<close>

theorem contract_mismatch_fails:
  assumes "env (env_var_name (prefix self)) = Some loc"
    and "str_rsplit1 CHR ''.'' loc = [m, s]"
    and "imp m = Inr module"
    and "mod_attrs module s = Some (ClassObj c)"
    and "cls_id k \<notin> set (cls_id c # cls_bases c)"
  shows "create_adapter env imp self (ClassObj k) =
           (Inl (Exception (loc @ '' should implement FacilityAdapter'')), self)
         \<and> IriRouter_init env imp (ClassObj k) (prefix self) vis =
           Inl (Exception (loc @ '' should implement FacilityAdapter''))"
proof -
  have g: "\<And>r. prefix r = prefix self \<Longrightarrow> create_adapter env imp r (ClassObj k) =
           (Inl (Exception (loc @ '' should implement FacilityAdapter'')), r)"
  proof -
    fix r :: router assume p: "prefix r = prefix self"
    have "env (env_var_name (prefix r)) = Some loc" using assms(1) p by simp
    then show "create_adapter env imp r (ClassObj k) =
           (Inl (Exception (loc @ '' should implement FacilityAdapter'')), r)"
      using assms(3,4,5) by (simp add: create_adapter_load[OF _ assms(2)] getattr_def)
  qed
  show ?thesis using g[of self] g[of "\<lparr>prefix = prefix self, include_in_schema = vis, adapter = None\<rparr>"]
    by (simp add: init_fresh)
qed

theorem contract_mismatch_fails_witness:
  "create_adapter [''IRI_API_ADAPTER_status'' \<mapsto> ''app.demo_adapter.Plain''] example_import
      \<lparr>prefix = ''/status'', include_in_schema = True, adapter = None\<rparr> (ClassObj example_AuthenticatedAdapter)
     = (Inl (Exception ''app.demo_adapter.Plain should implement FacilityAdapter''),
        \<lparr>prefix = ''/status'', include_in_schema = True, adapter = None\<rparr>)
   \<and> IriRouter_init [''IRI_API_ADAPTER_status'' \<mapsto> ''app.demo_adapter.Plain''] example_import
        (ClassObj example_AuthenticatedAdapter) ''/status'' True
     = Inl (Exception ''app.demo_adapter.Plain should implement FacilityAdapter'')"
  using contract_mismatch_fails[of "[''IRI_API_ADAPTER_status'' \<mapsto> ''app.demo_adapter.Plain'']"
          "\<lparr>prefix = ''/status'', include_in_schema = True, adapter = None\<rparr>"
          "''app.demo_adapter.Plain''" "''app.demo_adapter''" "''Plain''" example_import
          example_module example_Plain example_AuthenticatedAdapter True]
  by (simp add: env_var_status str_rsplit1_def example_import_def example_module_def
        example_Plain_def example_AuthenticatedAdapter_def)

theorem contract_message_counterexample:
  "create_adapter [''IRI_API_ADAPTER_status'' \<mapsto> ''app.demo_adapter.Plain''] example_import
      \<lparr>prefix = ''/status'', include_in_schema = True, adapter = None\<rparr> (ClassObj example_AuthenticatedAdapter)
     = (Inl (Exception ''app.demo_adapter.Plain should implement FacilityAdapter''),
        \<lparr>prefix = ''/status'', include_in_schema = True, adapter = None\<rparr>)
   \<and> create_adapter [''IRI_API_ADAPTER_status'' \<mapsto> ''app.demo_adapter.Plain''] example_import
      \<lparr>prefix = ''/status'', include_in_schema = True, adapter = None\<rparr> (ClassObj example_contract)
     = (Inl (Exception ''app.demo_adapter.Plain should implement FacilityAdapter''),
        \<lparr>prefix = ''/status'', include_in_schema = True, adapter = None\<rparr>)
   \<and> cls_id example_AuthenticatedAdapter = ''AuthenticatedAdapter''
   \<and> cls_id example_contract = ''FacilityAdapter''"
proof -
  have sp: "str_rsplit1 CHR ''.'' ''app.demo_adapter.Plain'' = [''app.demo_adapter'', ''Plain'']"
    by (simp add: str_rsplit1_def)
  have "\<And>k. cls_id k \<notin> set (cls_id example_Plain # cls_bases example_Plain) \<Longrightarrow>
    create_adapter [''IRI_API_ADAPTER_status'' \<mapsto> ''app.demo_adapter.Plain''] example_import
      \<lparr>prefix = ''/status'', include_in_schema = True, adapter = None\<rparr> (ClassObj k)
     = (Inl (Exception ''app.demo_adapter.Plain should implement FacilityAdapter''),
        \<lparr>prefix = ''/status'', include_in_schema = True, adapter = None\<rparr>)"
    by (simp add: create_adapter_load[OF _ sp] env_var_status getattr_def example_import_def
          example_module_def)
  from this[of example_AuthenticatedAdapter] this[of example_contract] show ?thesis
    by (simp add: example_Plain_def example_AuthenticatedAdapter_def example_contract_def)
qed

text \<open>
  C7: when the group has no entry of its own and the show-missing flag is
  "true", "1", "on" or "yes", construction behaves as if the group were configured with the
  locator \<^verbatim>\<open>app.demo_adapter.DemoAdapter\<close>: where that module has a class
  \<^verbatim>\<open>DemoAdapter\<close> that is a subclass of the contract, the router keeps the visibility it
  was constructed with and its adapter is the result of calling the class with no arguments.
\<close>

theorem default_adapter_when_shown:
  assumes "env (env_var_name (prefix self)) = None"
    and "env ''IRI_SHOW_MISSING_ROUTES'' = Some flag"
    and "flag \<in> {''true'', ''1'', ''on'', ''yes''}"
    and "imp ''app.demo_adapter'' = Inr module"
    and "mod_attrs module ''DemoAdapter'' = Some (ClassObj c)"
    and "cls_id k \<in> set (cls_id c # cls_bases c)"
    and "cls_new c = Inr a"
  shows "create_adapter env imp self (ClassObj k) = (Inr (), self\<lparr>adapter := Some a\<rparr>)
         \<and> IriRouter_init env imp (ClassObj k) (prefix self) vis =
             Inr \<lparr>prefix = prefix self, include_in_schema = vis, adapter = Some a\<rparr>
         \<and> create_adapter env imp self (ClassObj k) =
             create_adapter (env(env_var_name (prefix self) \<mapsto> ''app.demo_adapter.DemoAdapter''))
               imp self (ClassObj k)"
proof -
  have f: "env ''IRI_SHOW_MISSING_ROUTES'' \<in> {Some ''true'', Some ''1'', Some ''on'', Some ''yes''}"
    using assms(2,3) by auto
  have g: "\<And>r. prefix r = prefix self \<Longrightarrow>
            create_adapter env imp r (ClassObj k) = (Inr (), r\<lparr>adapter := Some a\<rparr>)"
  proof -
    fix r :: router assume p: "prefix r = prefix self"
    have "env (env_var_name (prefix r)) = Some ''app.demo_adapter.DemoAdapter'' \<or>
          (env (env_var_name (prefix r)) = None \<and>
           ''app.demo_adapter.DemoAdapter'' = ''app.demo_adapter.DemoAdapter'' \<and>
           env ''IRI_SHOW_MISSING_ROUTES'' \<in> {Some ''true'', Some ''1'', Some ''on'', Some ''yes''})"
      using assms(1) f p by simp
    then show "create_adapter env imp r (ClassObj k) = (Inr (), r\<lparr>adapter := Some a\<rparr>)"
      using assms(4,5,6,7) by (simp add: create_adapter_load[OF _ rsplit1_default] getattr_def)
  qed
  have h: "create_adapter (env(env_var_name (prefix self) \<mapsto> ''app.demo_adapter.DemoAdapter''))
               imp self (ClassObj k) = (Inr (), self\<lparr>adapter := Some a\<rparr>)"
    using assms(4,5,6,7)
    by (simp add: create_adapter_load[OF _ rsplit1_default,
          of "env(env_var_name (prefix self) \<mapsto> ''app.demo_adapter.DemoAdapter'')" self] getattr_def)
  show ?thesis
    using g[of self] g[of "\<lparr>prefix = prefix self, include_in_schema = vis, adapter = None\<rparr>"] h
    by (simp add: init_fresh)
qed

theorem default_adapter_when_shown_witness:
  "IriRouter_init [''IRI_SHOW_MISSING_ROUTES'' \<mapsto> ''true''] example_import (ClassObj example_contract) ''/status'' True
     = Inr \<lparr>prefix = ''/status'', include_in_schema = True, adapter = Some example_adapter\<rparr>
   \<and> IriRouter_init [''IRI_SHOW_MISSING_ROUTES'' \<mapsto> ''1''] example_import (ClassObj example_contract) ''/status'' True
     = Inr \<lparr>prefix = ''/status'', include_in_schema = True, adapter = Some example_adapter\<rparr>
   \<and> IriRouter_init [''IRI_SHOW_MISSING_ROUTES'' \<mapsto> ''on''] example_import (ClassObj example_contract) ''/status'' True
     = Inr \<lparr>prefix = ''/status'', include_in_schema = True, adapter = Some example_adapter\<rparr>
   \<and> IriRouter_init [''IRI_SHOW_MISSING_ROUTES'' \<mapsto> ''yes''] example_import (ClassObj example_contract) ''/status'' True
     = Inr \<lparr>prefix = ''/status'', include_in_schema = True, adapter = Some example_adapter\<rparr>"
proof -
  have w: "\<And>flag. flag \<in> {''true'', ''1'', ''on'', ''yes''} \<Longrightarrow>
     IriRouter_init [''IRI_SHOW_MISSING_ROUTES'' \<mapsto> flag] example_import (ClassObj example_contract) ''/status'' True
     = Inr \<lparr>prefix = ''/status'', include_in_schema = True, adapter = Some example_adapter\<rparr>"
  proof -
    fix flag :: string assume fl: "flag \<in> {''true'', ''1'', ''on'', ''yes''}"
    have "IriRouter_init [''IRI_SHOW_MISSING_ROUTES'' \<mapsto> flag] example_import (ClassObj example_contract)
            (prefix example_router) True
          = Inr \<lparr>prefix = prefix example_router, include_in_schema = True, adapter = Some example_adapter\<rparr>"
      using default_adapter_when_shown[of "[''IRI_SHOW_MISSING_ROUTES'' \<mapsto> flag]" example_router flag
              example_import example_module example_DemoAdapter example_contract example_adapter True] fl
      by (simp add: example_router_def env_var_status example_import_def example_module_def
            example_DemoAdapter_def example_contract_def)
    then show "IriRouter_init [''IRI_SHOW_MISSING_ROUTES'' \<mapsto> flag] example_import (ClassObj example_contract) ''/status'' True
     = Inr \<lparr>prefix = ''/status'', include_in_schema = True, adapter = Some example_adapter\<rparr>"
      by (simp add: example_router_def)
  qed
  show ?thesis using w[of "''true''"] w[of "''1''"] w[of "''on''"] w[of "''yes''"] by simp
qed

text \<open>
  C8: a locator \<open>m.s\<close> whose part \<open>s\<close> has no "." is split into the module
  path \<open>m\<close> and the symbol \<open>s\<close>. When importing \<open>m\<close> raises (for a module that does
  not exist, \<^verbatim>\<open>ImportError\<close>), construction fails with that exception; when the module
  has no attribute \<open>s\<close>, construction fails with \<^verbatim>\<open>AttributeError\<close>. In both cases no
  router is produced and \<^verbatim>\<open>create_adapter\<close> leaves \<open>self\<close> as it was.
\<close>

theorem locator_resolution:
  assumes "env (env_var_name (prefix self)) = Some (m @ ''.'' @ s)"
    and "CHR ''.'' \<notin> set s"
  shows "str_rsplit1 CHR ''.'' (m @ ''.'' @ s) = [m, s]
         \<and> (\<forall>e. imp m = Inl e \<longrightarrow>
               create_adapter env imp self k = (Inl e, self) \<and>
               IriRouter_init env imp k (prefix self) vis = Inl e)
         \<and> (\<forall>module. imp m = Inr module \<and> mod_attrs module s = None \<longrightarrow>
               create_adapter env imp self k =
                 (Inl (AttributeError (''module '' @ sq (mod_name module) @ '' has no attribute '' @ sq s)), self) \<and>
               IriRouter_init env imp k (prefix self) vis =
                 Inl (AttributeError (''module '' @ sq (mod_name module) @ '' has no attribute '' @ sq s)))"
proof -
  have sp: "str_rsplit1 CHR ''.'' (m @ ''.'' @ s) = [m, s]"
    using rsplit1_last[OF assms(2), of m] by simp
  have l: "\<And>r. prefix r = prefix self \<Longrightarrow> create_adapter env imp r k =
     (case imp m of Inl e \<Rightarrow> (Inl e, r) | Inr module \<Rightarrow>
      case getattr module s of Inl e \<Rightarrow> (Inl e, r) | Inr AdapterClass \<Rightarrow>
      case issubclass AdapterClass k of Inl e \<Rightarrow> (Inl e, r) | Inr sub \<Rightarrow>
      if \<not> sub then (Inl (Exception ((m @ ''.'' @ s) @ '' should implement FacilityAdapter'')), r)
      else case call_noargs AdapterClass of Inl e \<Rightarrow> (Inl e, r)
           | Inr a \<Rightarrow> (Inr (), r\<lparr>adapter := Some a\<rparr>))"
  proof -
    fix r :: router assume p: "prefix r = prefix self"
    show "create_adapter env imp r k =
     (case imp m of Inl e \<Rightarrow> (Inl e, r) | Inr module \<Rightarrow>
      case getattr module s of Inl e \<Rightarrow> (Inl e, r) | Inr AdapterClass \<Rightarrow>
      case issubclass AdapterClass k of Inl e \<Rightarrow> (Inl e, r) | Inr sub \<Rightarrow>
      if \<not> sub then (Inl (Exception ((m @ ''.'' @ s) @ '' should implement FacilityAdapter'')), r)
      else case call_noargs AdapterClass of Inl e \<Rightarrow> (Inl e, r)
           | Inr a \<Rightarrow> (Inr (), r\<lparr>adapter := Some a\<rparr>))"
      by (rule create_adapter_load[OF _ sp]) (use assms(1) p in simp)
  qed
  show ?thesis
    using sp l[of self] l[of "\<lparr>prefix = prefix self, include_in_schema = vis, adapter = None\<rparr>"]
    by (simp add: init_fresh getattr_def)
qed

theorem locator_resolution_witness:
  "str_rsplit1 CHR ''.'' ''app.missing.Thing'' = [''app.missing'', ''Thing'']
   \<and> IriRouter_init [''IRI_API_ADAPTER_status'' \<mapsto> ''app.missing.Thing''] example_import
        (ClassObj example_contract) ''/status'' True = Inl (ImportError (''No module named '' @ sq ''app.missing''))
   \<and> IriRouter_init [''IRI_API_ADAPTER_status'' \<mapsto> ''app.demo_adapter.Missing''] example_import
        (ClassObj example_contract) ''/status'' True
      = Inl (AttributeError (''module '' @ sq ''app.demo_adapter'' @ '' has no attribute '' @ sq ''Missing''))"
  using locator_resolution[of "[''IRI_API_ADAPTER_status'' \<mapsto> ''app.missing.Thing'']" example_router
          "''app.missing''" "''Thing''" example_import "ClassObj example_contract" True]
        locator_resolution[of "[''IRI_API_ADAPTER_status'' \<mapsto> ''app.demo_adapter.Missing'']" example_router
          "''app.demo_adapter''" "''Missing''" example_import "ClassObj example_contract" True]
  by (simp add: example_router_def env_var_status example_import_def example_module_def)

section \<open>Client address\<close>




section \<open>Request authentication\<close>

text \<open>
  C1: when the router has an adapter whose \<^verbatim>\<open>get_current_user\<close>, called with the
  credential and the address \<^verbatim>\<open>get_real_ip\<close> gives, raises an exception or returns a
  falsy value (\<open>None\<close>, the empty string, zero, \<open>False\<close>), \<^verbatim>\<open>current_user\<close> raises
  \<^verbatim>\<open>HTTPException\<close> with status 403 and detail "Unauthorized access", and the request,
  its state included, is left as it was. The same holds when \<^verbatim>\<open>get_real_ip\<close> itself
  raises, so that the adapter is never called.
\<close>

theorem current_user_rejects:
  assumes "adapter self = Some a" and "get_current_user a = Some f"
    and "\<forall>ip. get_real_ip req = Inr ip \<longrightarrow>
           (\<exists>e. f api_key ip = Inl e) \<or> (\<exists>v. f api_key ip = Inr v \<and> \<not> truthy v)"
  shows "current_user self req api_key = (Inl (HTTPException 403 ''Unauthorized access''), req)"
proof (rule current_user_denied)
  show "(\<exists>e. try_get_current_user self req api_key = Inl e) \<or>
        (\<exists>v. try_get_current_user self req api_key = Inr v \<and> \<not> truthy v)"
  proof (cases "get_real_ip req")
    case (Inl e)
    then show ?thesis by (simp add: try_bound_adapter[OF assms(1,2)])
  next
    case (Inr ip)
    with assms(3) show ?thesis by (simp add: try_bound_adapter[OF assms(1,2)])
  qed
qed

theorem current_user_rejects_witness:
  "current_user example_router example_request ''broken-token''
     = (Inl (HTTPException 403 ''Unauthorized access''), example_request)
   \<and> current_user example_router example_request ''unknown-token''
     = (Inl (HTTPException 403 ''Unauthorized access''), example_request)
   \<and> current_user example_router example_request_no_peer ''good-token''
     = (Inl (HTTPException 403 ''Unauthorized access''), example_request_no_peer)"
proof (intro conjI)
  have ip: "get_real_ip example_request = Inr (Some ''9.9.9.9'')"
    by (simp add: get_real_ip_def str_falsy_def example_request_def)
  have np: "\<And>ip. get_real_ip example_request_no_peer \<noteq> Inr ip"
    by (simp add: get_real_ip_def str_falsy_def example_request_no_peer_def)
  show "current_user example_router example_request ''broken-token''
     = (Inl (HTTPException 403 ''Unauthorized access''), example_request)"
    by (rule current_user_rejects[where a = example_adapter and f = example_get_current_user])
       (simp_all add: ip example_router_def example_adapter_def example_get_current_user_def)
  show "current_user example_router example_request ''unknown-token''
     = (Inl (HTTPException 403 ''Unauthorized access''), example_request)"
    by (rule current_user_rejects[where a = example_adapter and f = example_get_current_user])
       (simp_all add: ip example_router_def example_adapter_def example_get_current_user_def)
  show "current_user example_router example_request_no_peer ''good-token''
     = (Inl (HTTPException 403 ''Unauthorized access''), example_request_no_peer)"
    by (rule current_user_rejects[where a = example_adapter and f = example_get_current_user])
       (simp_all add: np example_router_def example_adapter_def)
qed

text \<open>
  C2: when \<^verbatim>\<open>get_real_ip\<close> gives an address and the adapter's
  \<^verbatim>\<open>get_current_user\<close>, called with the credential and that address, returns a truthy
  token, \<^verbatim>\<open>current_user\<close> returns without raising, having stored the token under
  \<^verbatim>\<open>current_user_id\<close> and the credential it was given under \<^verbatim>\<open>api_key\<close> in the
  request state.
\<close>

theorem current_user_accepts:
  assumes "adapter self = Some a" and "get_current_user a = Some f"
    and "get_real_ip req = Inr ip"
    and "f api_key ip = Inr token" and "truthy token"
  shows "current_user self req api_key =
     (Inr (), req\<lparr>state := (state req)(''current_user_id'' \<mapsto> token, ''api_key'' \<mapsto> PyStr api_key)\<rparr>)"
  using assms(3,4,5) by (simp add: current_user_def try_bound_adapter[OF assms(1,2)])

theorem current_user_accepts_witness:
  "current_user example_router example_request ''good-token'' =
     (Inr (), example_request\<lparr>state :=
        [''current_user_id'' \<mapsto> PyStr ''user1'', ''api_key'' \<mapsto> PyStr ''good-token'']\<rparr>)"
proof -
  have "current_user example_router example_request ''good-token'' =
     (Inr (), example_request\<lparr>state := (state example_request)(''current_user_id'' \<mapsto> PyStr ''user1'',
         ''api_key'' \<mapsto> PyStr ''good-token'')\<rparr>)"
    by (rule current_user_accepts[where a = example_adapter and f = example_get_current_user
          and ip = "Some ''9.9.9.9''"])
       (simp_all add: example_router_def example_adapter_def example_get_current_user_def
          get_real_ip_def str_falsy_def example_request_def)
  then show ?thesis by (simp add: example_request_def)
qed

text \<open>
  C10: a router constructed hidden has no adapter, and every call of
  \<^verbatim>\<open>current_user\<close> on it raises \<^verbatim>\<open>HTTPException\<close> 403 "Unauthorized access" and
  leaves the request as it was: the \<^verbatim>\<open>AttributeError\<close> of the missing attribute is
  caught by the handler.
\<close>

theorem hidden_router_denies:
  assumes "env (env_var_name pfx) = None"
    and "env ''IRI_SHOW_MISSING_ROUTES'' \<notin> {Some ''true'', Some ''1'', Some ''on'', Some ''yes''}"
  shows "\<exists>r. IriRouter_init env imp router_adapter pfx vis = Inr r \<and> adapter r = None \<and>
             (\<forall>req api_key. current_user r req api_key =
                (Inl (HTTPException 403 ''Unauthorized access''), req))"
proof -
  let ?r = "\<lparr>prefix = pfx, include_in_schema = False, adapter = None\<rparr>"
  have i: "IriRouter_init env imp router_adapter pfx vis = Inr ?r"
    using create_adapter_hide[of env "\<lparr>prefix = pfx, include_in_schema = vis, adapter = None\<rparr>" imp router_adapter] assms
    by (simp add: init_fresh)
  have d: "\<And>req api_key. current_user ?r req api_key = (Inl (HTTPException 403 ''Unauthorized access''), req)"
    by (rule current_user_denied) (simp add: try_get_current_user_def)
  from i d show ?thesis by simp
qed

theorem hidden_router_denies_witness:
  "\<exists>r. IriRouter_init Map.empty example_import (ClassObj example_contract) ''/status'' True = Inr r
       \<and> adapter r = None
       \<and> (\<forall>req api_key. current_user r req api_key =
                (Inl (HTTPException 403 ''Unauthorized access''), req))"
  by (rule hidden_router_denies) simp_all

end
